theory Spec2Isabelle
  imports Complex_Main "HOL-Library.AList"
begin

section \<open>JavaScript values\<close>

text \<open>
  The service of \<^verbatim>\<open>server.js\<close> keeps JSON-like JavaScript objects in an array and reads
  their properties dynamically, so the model is dynamically typed as well.

  A JavaScript number is a double. The finite doubles are rationals, so a finite number is
  a \<open>rat\<close>; the three non-finite doubles are constructors of their own. Arithmetic on
  \<open>Finite\<close> is exact where JavaScript rounds: the two agree whenever the exact result is a
  double, which covers every integer below \<open>2 ^ 53\<close>.
\<close>

datatype jsnum = Finite rat | PosInf | NegInf | NaN

datatype jsval =
    JUndefined
  | JNull
  | JBool bool
  | JNum jsnum
  | JStr string
  | JArr "jsval list"
  | JObj "(string \<times> jsval) list"

text \<open>
  An object is the list of its own properties in insertion order; no key occurs twice in
  an object that JavaScript built. Reading a property that is absent gives \<open>undefined\<close>.
\<close>

type_synonym jsobject = "(string \<times> jsval) list"

definition getprop :: "jsobject \<Rightarrow> string \<Rightarrow> jsval" where
  "getprop obj k = (case map_of obj k of None \<Rightarrow> JUndefined | Some v \<Rightarrow> v)"

text \<open>\<open>{...a, ...b}\<close>: the properties of \<open>a\<close>, each property of \<open>b\<close> assigned over them in
  turn (an existing key keeps its place, a new key goes to the end).\<close>

definition spread :: "jsobject \<Rightarrow> jsobject \<Rightarrow> jsobject" where
  "spread a b = fold (\<lambda>(k, v). AList.update k v) b a"

text \<open>Truthiness, as \<open>!x\<close>, \<open>x || y\<close> and \<open>if (x)\<close> read a value.\<close>

fun truthy :: "jsval \<Rightarrow> bool" where
  "truthy JUndefined = False"
| "truthy JNull = False"
| "truthy (JBool b) = b"
| "truthy (JNum (Finite r)) = (r \<noteq> 0)"
| "truthy (JNum NaN) = False"
| "truthy (JNum PosInf) = True"
| "truthy (JNum NegInf) = True"
| "truthy (JStr s) = (s \<noteq> [])"
| "truthy (JArr xs) = True"
| "truthy (JObj kvs) = True"

text \<open>\<open>x || y\<close> on values.\<close>

definition js_or :: "jsval \<Rightarrow> jsval \<Rightarrow> jsval" where
  "js_or x y = (if truthy x then x else y)"

text \<open>\<open>n <= 0\<close> on numbers.\<close>

fun le_zero :: "jsnum \<Rightarrow> bool" where
  "le_zero (Finite r) = (r \<le> 0)"
| "le_zero NegInf = True"
| "le_zero PosInf = False"
| "le_zero NaN = False"

text \<open>\<open>typeof v !== 'number' || v <= 0\<close>: the comparison is only reached for a number.\<close>

fun not_positive_number :: "jsval \<Rightarrow> bool" where
  "not_positive_number (JNum n) = le_zero n"
| "not_positive_number v = True"

subsection \<open>Number arithmetic of the pagination\<close>

fun num_sub :: "jsnum \<Rightarrow> jsnum \<Rightarrow> jsnum" where
  "num_sub NaN y = NaN"
| "num_sub x NaN = NaN"
| "num_sub (Finite a) (Finite b) = Finite (a - b)"
| "num_sub (Finite a) PosInf = NegInf"
| "num_sub (Finite a) NegInf = PosInf"
| "num_sub PosInf PosInf = NaN"
| "num_sub PosInf y = PosInf"
| "num_sub NegInf NegInf = NaN"
| "num_sub NegInf y = NegInf"

definition inf_of_sign :: "bool \<Rightarrow> jsnum" where
  "inf_of_sign positive = (if positive then PosInf else NegInf)"

fun num_mul :: "jsnum \<Rightarrow> jsnum \<Rightarrow> jsnum" where
  "num_mul NaN y = NaN"
| "num_mul x NaN = NaN"
| "num_mul (Finite a) (Finite b) = Finite (a * b)"
| "num_mul (Finite a) PosInf = (if a = 0 then NaN else inf_of_sign (0 < a))"
| "num_mul (Finite a) NegInf = (if a = 0 then NaN else inf_of_sign (a < 0))"
| "num_mul PosInf (Finite b) = (if b = 0 then NaN else inf_of_sign (0 < b))"
| "num_mul NegInf (Finite b) = (if b = 0 then NaN else inf_of_sign (b < 0))"
| "num_mul PosInf PosInf = PosInf"
| "num_mul PosInf NegInf = NegInf"
| "num_mul NegInf PosInf = NegInf"
| "num_mul NegInf NegInf = PosInf"

subsection \<open>Strings\<close>

text \<open>
  \<open>toLowerCase\<close> on the ASCII letters; a character outside \<open>A\<close>..\<open>Z\<close> is kept. (The
  model's characters are bytes, so the case mapping of letters beyond ASCII is outside it.)
\<close>

definition lower_char :: "char \<Rightarrow> char" where
  "lower_char c =
     (let n = (of_char c :: nat) in if 65 \<le> n \<and> n \<le> 90 then char_of (n + 32) else c)"

definition toLowerCase :: "string \<Rightarrow> string" where
  "toLowerCase s = map lower_char s"

text \<open>\<open>s.includes(t)\<close>: \<open>t\<close> occurs in \<open>s\<close> as a contiguous run.\<close>

fun starts_with :: "string \<Rightarrow> string \<Rightarrow> bool" where
  "starts_with s [] = True"
| "starts_with [] (d # t) = False"
| "starts_with (c # s) (d # t) = (c = d \<and> starts_with s t)"

fun str_includes :: "string \<Rightarrow> string \<Rightarrow> bool" where
  "str_includes [] t = (t = [])"
| "str_includes (c # s) t = (starts_with (c # s) t \<or> str_includes s t)"

section \<open>Failures\<close>

text \<open>
  A thrown or forwarded error, as the error translator reads it: its \<open>message\<close> and its
  \<open>statusCode\<close> property, absent on an error that declares none.
\<close>

record js_error =
  message :: string
  statusCode :: "nat option"

text \<open>
  Modelled from the spec: the classes \<open>ValidationError\<close> and \<open>NotFoundError\<close> come from
  the module \<^verbatim>\<open>./errors\<close>, which is not among the sources. The spec gives them the
  declared codes 400 and 404, and the message they are built with.
\<close>

definition ValidationError :: "string \<Rightarrow> js_error" where
  "ValidationError msg = \<lparr>message = msg, statusCode = Some 400\<rparr>"

definition NotFoundError :: "string \<Rightarrow> js_error" where
  "NotFoundError msg = \<lparr>message = msg, statusCode = Some 404\<rparr>"

text \<open>
  The \<open>TypeError\<close> the runtime throws when a method is called on a value that has none.
  It declares no status code. Its message is the engine's and is not modelled beyond
  being non-empty.
\<close>

definition TypeError :: js_error where
  "TypeError = \<lparr>message = ''TypeError'', statusCode = None\<rparr>"

text \<open>\<open>v.toLowerCase()\<close> on a value: only a string has the method.\<close>

fun toLowerCase_val :: "jsval \<Rightarrow> js_error + string" where
  "toLowerCase_val (JStr s) = Inr (toLowerCase s)"
| "toLowerCase_val v = Inl TypeError"

text \<open>\<open>xs.filter(f)\<close> with a callback that may throw: the first throw ends the scan.\<close>

fun filterE :: "('a \<Rightarrow> js_error + bool) \<Rightarrow> 'a list \<Rightarrow> js_error + 'a list" where
  "filterE f [] = Inr []"
| "filterE f (x # xs) =
     (case f x of
        Inl e \<Rightarrow> Inl e
      | Inr b \<Rightarrow>
          (case filterE f xs of
             Inl e \<Rightarrow> Inl e
           | Inr ys \<Rightarrow> Inr (if b then x # ys else ys)))"

text \<open>\<open>xs.findIndex(f)\<close>, with \<open>None\<close> for \<open>-1\<close>, and \<open>xs.find(f)\<close>.\<close>

fun findIndex :: "('a \<Rightarrow> bool) \<Rightarrow> 'a list \<Rightarrow> nat option" where
  "findIndex f [] = None"
| "findIndex f (x # xs) =
     (if f x then Some 0 else map_option Suc (findIndex f xs))"

text \<open>
  \<open>xs.slice(start, end)\<close>: each bound is truncated towards zero (\<open>NaN\<close> counts as 0), a
  negative bound counts from the end of the array, and both are clamped to the array.
\<close>

definition trunc :: "rat \<Rightarrow> int" where
  "trunc r = (if r < 0 then - \<lfloor>- r\<rfloor> else \<lfloor>r\<rfloor>)"

fun rel_index :: "nat \<Rightarrow> jsnum \<Rightarrow> nat" where
  "rel_index len NaN = 0"
| "rel_index len NegInf = 0"
| "rel_index len PosInf = len"
| "rel_index len (Finite r) =
     (if trunc r < 0 then nat (max (int len + trunc r) 0) else min (nat (trunc r)) len)"

definition slice :: "'a list \<Rightarrow> jsnum \<Rightarrow> jsnum \<Rightarrow> 'a list" where
  "slice xs start stop =
     (let k = rel_index (length xs) start; final = rel_index (length xs) stop
      in take (final - k) (drop k xs))"

section \<open>Requests, responses and the store\<close>

text \<open>
  The store is the module-level array \<open>products\<close>; every handler takes it and returns it.
\<close>

type_synonym product = jsobject
type_synonym store = "product list"

text \<open>The process environment: \<open>process.env.API_KEY\<close>, absent when it is not set.\<close>

record env =
  API_KEY :: "string option"

text \<open>
  A request as the routes see it, after the body parser has let it through: the header
  \<open>x-api-key\<close> and the body as \<open>express.json()\<close> set it, an object (the empty object
  for a request without a JSON body). An array body has none of the properties the
  handlers read, and behaves like the empty object.
\<close>

record request =
  x_api_key :: "string option"
  req_body :: jsobject

text \<open>
  A query parameter that is read as text: a string, or the array or object that the
  query parser builds from a repeated or bracketed parameter.
\<close>

datatype qparam = QString string | QNested

text \<open>Truthiness of a query parameter; \<open>None\<close> is the parameter left out (\<open>undefined\<close>).\<close>

fun qtruthy :: "qparam option \<Rightarrow> bool" where
  "qtruthy None = False"
| "qtruthy (Some (QString s)) = (s \<noteq> [])"
| "qtruthy (Some QNested) = True"

fun toLowerCase_q :: "qparam \<Rightarrow> js_error + string" where
  "toLowerCase_q (QString s) = Inr (toLowerCase s)"
| "toLowerCase_q QNested = Inl TypeError"

text \<open>
  A query parameter that is read as a number. The handler coerces the text twice, with
  built-ins of the language: to a number for the arithmetic (\<open>page - 1\<close>, \<open>page * limit\<close>)
  and with \<open>parseInt\<close> for the echo in the response. The model takes both readings.
\<close>

record numparam =
  as_number :: jsnum
  as_parseInt :: jsnum

record list_query =
  category :: "qparam option"
  page :: "numparam option"
  limit :: "numparam option"

text \<open>
  A response: the status and what the handler handed to \<open>res.json\<close>, \<open>res.send\<close> or
  \<open>res.end\<close>.
\<close>

datatype resbody = NoBody | Text string | Json jsval

record response =
  res_status :: nat
  res_body :: resbody

text \<open>The seed of the store; the three ids are drawn by \<open>uuidv4()\<close> at start-up. A
  decimal literal such as \<open>999.99\<close> stands for its decimal value.\<close>

definition seed_products :: "string \<Rightarrow> string \<Rightarrow> string \<Rightarrow> store" where
  "seed_products id1 id2 id3 =
     [ [(''id'', JStr id1), (''name'', JStr ''Laptop''),
        (''description'', JStr ''High performance laptop''),
        (''price'', JNum (Finite (99999 / 100))), (''category'', JStr ''Electronics''),
        (''inStock'', JBool True)],
       [(''id'', JStr id2), (''name'', JStr ''Smartphone''),
        (''description'', JStr ''Latest model smartphone''),
        (''price'', JNum (Finite (69999 / 100))), (''category'', JStr ''Electronics''),
        (''inStock'', JBool True)],
       [(''id'', JStr id3), (''name'', JStr ''Desk Chair''),
        (''description'', JStr ''Ergonomic office chair''),
        (''price'', JNum (Finite (19999 / 100))), (''category'', JStr ''Furniture''),
        (''inStock'', JBool False)] ]"

section \<open>Middleware\<close>

text \<open>
  \<open>authenticate\<close>: \<open>Some r\<close> when it answers the request itself with \<open>r\<close>, \<open>None\<close> when it
  calls \<open>next()\<close>.
\<close>

definition unauthorized :: response where
  "unauthorized =
     \<lparr>res_status = 401, res_body = Json (JObj [(''message'', JStr ''Unauthorized'')])\<rparr>"

definition authenticate :: "env \<Rightarrow> request \<Rightarrow> response option" where
  "authenticate e req =
     (case x_api_key req of
        None \<Rightarrow> Some unauthorized
      | Some apiKey \<Rightarrow>
          if apiKey = [] \<or> Some apiKey \<noteq> API_KEY e then Some unauthorized else None)"

text \<open>\<open>validateProduct\<close>: \<open>Some err\<close> for \<open>next(err)\<close>, \<open>None\<close> for \<open>next()\<close>.\<close>

definition validateProduct :: "request \<Rightarrow> js_error option" where
  "validateProduct req =
     (if \<not> truthy (getprop (req_body req) ''name'') \<or>
         \<not> truthy (getprop (req_body req) ''price'') \<or>
         \<not> truthy (getprop (req_body req) ''category'')
      then Some (ValidationError ''Name, price, and category are required'')
      else if not_positive_number (getprop (req_body req) ''price'')
      then Some (ValidationError ''Price must be a positive number'')
      else None)"

text \<open>
  The error-handling middleware. \<open>now\<close> is \<open>new Date().toISOString()\<close> at the time of the
  response.
\<close>

definition error_handler :: "string \<Rightarrow> js_error \<Rightarrow> response" where
  "error_handler now err =
     (let code = (case statusCode err of None \<Rightarrow> 500 | Some c \<Rightarrow> if c = 0 then 500 else c);
          msg = (if message err = [] then ''Internal Server Error'' else message err)
      in \<lparr>res_status = code,
          res_body = Json (JObj [(''error'',
            JObj [(''message'', JStr msg),
                  (''status'', JNum (Finite (of_nat code))),
                  (''timestamp'', JStr now)])])\<rparr>)"

text \<open>The 404 handler, reached by a request that no route matched.\<close>

definition not_found_handler :: "string \<Rightarrow> response" where
  "not_found_handler now = error_handler now (NotFoundError ''Endpoint not found'')"

section \<open>Routes\<close>

text \<open>
  Each route is a function of what it reads of the request and, where it reads or writes
  the array \<open>products\<close>, of the store. A handler that throws is answered by the error
  translator, as Express does for a synchronous handler. Which route a request reaches
  is decided by the router of Express and is not part of the model; the logger only
  writes to the console, and the statistics route, which no property below concerns,
  is left out.
\<close>

subsection \<open>GET /\<close>

definition get_root :: response where
  "get_root = \<lparr>res_status = 200, res_body = Text ''Welcome to the Products API''\<rparr>"

subsection \<open>GET /api/products\<close>

definition category_matches :: "qparam \<Rightarrow> product \<Rightarrow> js_error + bool" where
  "category_matches c p =
     (case toLowerCase_val (getprop p ''category'') of
        Inl e \<Rightarrow> Inl e
      | Inr pc \<Rightarrow> (case toLowerCase_q c of Inl e \<Rightarrow> Inl e | Inr qc \<Rightarrow> Inr (pc = qc)))"

text \<open>The destructuring defaults \<open>page = 1\<close> and \<open>limit = 10\<close>, for a parameter left out.\<close>

definition default_param :: "int \<Rightarrow> numparam" where
  "default_param n = \<lparr>as_number = Finite (of_int n), as_parseInt = Finite (of_int n)\<rparr>"

definition page_or_default :: "list_query \<Rightarrow> numparam" where
  "page_or_default q = (case page q of None \<Rightarrow> default_param 1 | Some v \<Rightarrow> v)"

definition limit_or_default :: "list_query \<Rightarrow> numparam" where
  "limit_or_default q = (case limit q of None \<Rightarrow> default_param 10 | Some v \<Rightarrow> v)"

definition get_products :: "string \<Rightarrow> list_query \<Rightarrow> store \<Rightarrow> response" where
  "get_products now q products =
     (let pg = page_or_default q;
          lim = limit_or_default q;
          filtered =
            (case category q of
               None \<Rightarrow> Inr products
             | Some c \<Rightarrow>
                 if qtruthy (Some c) then filterE (category_matches c) products
                 else Inr products)
      in case filtered of
           Inl e \<Rightarrow> error_handler now e
         | Inr filteredProducts \<Rightarrow>
             (let startIndex = num_mul (num_sub (as_number pg) (Finite 1)) (as_number lim);
                  endIndex = num_mul (as_number pg) (as_number lim)
              in \<lparr>res_status = 200,
                  res_body = Json (JObj
                    [(''total'', JNum (Finite (of_nat (length filteredProducts)))),
                     (''page'', JNum (as_parseInt pg)),
                     (''limit'', JNum (as_parseInt lim)),
                     (''products'',
                        JArr (map JObj (slice filteredProducts startIndex endIndex)))])\<rparr>))"

subsection \<open>GET /api/products/search\<close>

text \<open>
  The callback of the search: \<open>||\<close> evaluates its right operand only when the left one
  is false, so the description is not touched for a record whose name matches.
\<close>

definition search_matches :: "qparam \<Rightarrow> product \<Rightarrow> js_error + bool" where
  "search_matches q p =
     (case toLowerCase_val (getprop p ''name'') of
        Inl e \<Rightarrow> Inl e
      | Inr n \<Rightarrow>
          (case toLowerCase_q q of
             Inl e \<Rightarrow> Inl e
           | Inr ql \<Rightarrow>
               if str_includes n ql then Inr True
               else (case toLowerCase_val (getprop p ''description'') of
                       Inl e \<Rightarrow> Inl e
                     | Inr d \<Rightarrow> Inr (str_includes d ql))))"

definition search_products :: "string \<Rightarrow> qparam option \<Rightarrow> store \<Rightarrow> response" where
  "search_products now q products =
     (case q of
        None \<Rightarrow> error_handler now (ValidationError ''Search query is required'')
      | Some qv \<Rightarrow>
          if \<not> qtruthy (Some qv)
          then error_handler now (ValidationError ''Search query is required'')
          else (case filterE (search_matches qv) products of
                  Inl e \<Rightarrow> error_handler now e
                | Inr searchResults \<Rightarrow>
                    \<lparr>res_status = 200, res_body = Json (JArr (map JObj searchResults))\<rparr>))"

subsection \<open>GET /api/products/:id\<close>

definition has_id :: "string \<Rightarrow> product \<Rightarrow> bool" where
  "has_id i p = (getprop p ''id'' = JStr i)"

definition get_product :: "string \<Rightarrow> string \<Rightarrow> store \<Rightarrow> response" where
  "get_product now i products =
     (case List.find (has_id i) products of
        None \<Rightarrow> error_handler now (NotFoundError ''Product not found'')
      | Some product \<Rightarrow> \<lparr>res_status = 200, res_body = Json (JObj product)\<rparr>)"

subsection \<open>POST /api/products\<close>

text \<open>\<open>uuid\<close> is the value \<open>uuidv4()\<close> returns in this request.\<close>

definition post_products ::
  "env \<Rightarrow> string \<Rightarrow> string \<Rightarrow> request \<Rightarrow> store \<Rightarrow> response \<times> store" where
  "post_products e now uuid req products =
     (case authenticate e req of
        Some r \<Rightarrow> (r, products)
      | None \<Rightarrow>
          (case validateProduct req of
             Some err \<Rightarrow> (error_handler now err, products)
           | None \<Rightarrow>
               (let product =
                      [(''id'', JStr uuid),
                       (''name'', getprop (req_body req) ''name''),
                       (''description'', getprop (req_body req) ''description''),
                       (''price'', getprop (req_body req) ''price''),
                       (''category'', getprop (req_body req) ''category''),
                       (''inStock'', js_or (getprop (req_body req) ''inStock'') (JBool True))]
                in (\<lparr>res_status = 201, res_body = Json (JObj product)\<rparr>,
                    products @ [product]))))"

subsection \<open>PUT /api/products/:id\<close>

definition put_product ::
  "env \<Rightarrow> string \<Rightarrow> string \<Rightarrow> request \<Rightarrow> store \<Rightarrow> response \<times> store" where
  "put_product e now i req products =
     (case authenticate e req of
        Some r \<Rightarrow> (r, products)
      | None \<Rightarrow>
          (case validateProduct req of
             Some err \<Rightarrow> (error_handler now err, products)
           | None \<Rightarrow>
               (case findIndex (has_id i) products of
                  None \<Rightarrow> (error_handler now (NotFoundError ''Product not found''), products)
                | Some index \<Rightarrow>
                    (let updated = spread (products ! index) (req_body req)
                     in (\<lparr>res_status = 200, res_body = Json (JObj updated)\<rparr>,
                         products[index := updated])))))"

subsection \<open>DELETE /api/products/:id\<close>

definition delete_product ::
  "env \<Rightarrow> string \<Rightarrow> string \<Rightarrow> request \<Rightarrow> store \<Rightarrow> response \<times> store" where
  "delete_product e now i req products =
     (case authenticate e req of
        Some r \<Rightarrow> (r, products)
      | None \<Rightarrow>
          (case findIndex (has_id i) products of
             None \<Rightarrow> (error_handler now (NotFoundError ''Product not found''), products)
           | Some index \<Rightarrow>
               (\<lparr>res_status = 204, res_body = NoBody\<rparr>,
                take index products @ drop (Suc index) products)))"

section \<open>The body parser before every route\<close>

text \<open>
  \<open>app.use(express.json())\<close> is mounted first, so the parser runs on every request before
  the authentication, the validator, the routes and the 404 handler. A request as it
  comes in carries the header and what the parser makes of its body: \<open>Inr\<close> the object it
  sets as \<open>req.body\<close> before calling \<open>next()\<close>, or \<open>Inl\<close> the error it forwards with
  \<open>next(err)\<close> for a body it refuses (JSON that does not parse, a body that is too
  large, ...). The parser is the library's; the model takes its outcome as given. A
  forwarded error skips every route and is answered by the error translator.
\<close>

record incoming =
  in_x_api_key :: "string option"
  in_json :: "js_error + jsobject"

definition express_json :: "incoming \<Rightarrow> js_error + request" where
  "express_json r =
     (case in_json r of
        Inl err \<Rightarrow> Inl err
      | Inr b \<Rightarrow> Inr \<lparr>x_api_key = in_x_api_key r, req_body = b\<rparr>)"

text \<open>The application on a request, route by route: the parser, then the route.\<close>

definition app_get_root :: "string \<Rightarrow> incoming \<Rightarrow> response" where
  "app_get_root now r =
     (case express_json r of Inl err \<Rightarrow> error_handler now err | Inr req \<Rightarrow> get_root)"

definition app_get_products :: "string \<Rightarrow> incoming \<Rightarrow> list_query \<Rightarrow> store \<Rightarrow> response" where
  "app_get_products now r q products =
     (case express_json r of
        Inl err \<Rightarrow> error_handler now err
      | Inr req \<Rightarrow> get_products now q products)"

definition app_search_products ::
  "string \<Rightarrow> incoming \<Rightarrow> qparam option \<Rightarrow> store \<Rightarrow> response" where
  "app_search_products now r q products =
     (case express_json r of
        Inl err \<Rightarrow> error_handler now err
      | Inr req \<Rightarrow> search_products now q products)"

definition app_get_product :: "string \<Rightarrow> incoming \<Rightarrow> string \<Rightarrow> store \<Rightarrow> response" where
  "app_get_product now r i products =
     (case express_json r of
        Inl err \<Rightarrow> error_handler now err
      | Inr req \<Rightarrow> get_product now i products)"

definition app_post_products ::
  "env \<Rightarrow> string \<Rightarrow> string \<Rightarrow> incoming \<Rightarrow> store \<Rightarrow> response \<times> store" where
  "app_post_products e now uuid r products =
     (case express_json r of
        Inl err \<Rightarrow> (error_handler now err, products)
      | Inr req \<Rightarrow> post_products e now uuid req products)"

definition app_put_product ::
  "env \<Rightarrow> string \<Rightarrow> string \<Rightarrow> incoming \<Rightarrow> store \<Rightarrow> response \<times> store" where
  "app_put_product e now i r products =
     (case express_json r of
        Inl err \<Rightarrow> (error_handler now err, products)
      | Inr req \<Rightarrow> put_product e now i req products)"

definition app_delete_product ::
  "env \<Rightarrow> string \<Rightarrow> string \<Rightarrow> incoming \<Rightarrow> store \<Rightarrow> response \<times> store" where
  "app_delete_product e now i r products =
     (case express_json r of
        Inl err \<Rightarrow> (error_handler now err, products)
      | Inr req \<Rightarrow> delete_product e now i req products)"

text \<open>A request that no route matches: the parser, then the 404 handler.\<close>

definition app_unmatched :: "string \<Rightarrow> incoming \<Rightarrow> response" where
  "app_unmatched now r =
     (case express_json r of
        Inl err \<Rightarrow> error_handler now err
      | Inr req \<Rightarrow> not_found_handler now)"

section \<open>Notions of the specification\<close>

text \<open>
  The definitions of this section say what the specification's words mean on the data of
  the model; the handlers above do not use them.
\<close>

definition is_string :: "jsval \<Rightarrow> bool" where
  "is_string v = (case v of JStr s \<Rightarrow> True | _ \<Rightarrow> False)"

text \<open>A positive number: what the validator is specified to demand of \<open>price\<close>.\<close>

fun positive_number :: "jsval \<Rightarrow> bool" where
  "positive_number (JNum (Finite r)) = (0 < r)"
| "positive_number (JNum PosInf) = True"
| "positive_number v = False"

text \<open>The records whose category matches \<open>c\<close> case-insensitively.\<close>

definition category_is :: "string \<Rightarrow> product \<Rightarrow> bool" where
  "category_is c p =
     (case getprop p ''category'' of JStr t \<Rightarrow> toLowerCase t = toLowerCase c | _ \<Rightarrow> False)"

text \<open>The records a list request selects: all of them when no category is given (or an
  empty one), else those of the category.\<close>

definition spec_matching :: "string option \<Rightarrow> store \<Rightarrow> store" where
  "spec_matching c products =
     (case c of
        None \<Rightarrow> products
      | Some s \<Rightarrow> if s = [] then products else filter (category_is s) products)"

text \<open>The slice \<open>[lo, hi)\<close> of a sequence: its elements at the positions \<open>i\<close> with
  \<open>lo \<le> i < hi\<close>, in order.\<close>

definition spec_slice :: "rat \<Rightarrow> rat \<Rightarrow> 'a list \<Rightarrow> 'a list" where
  "spec_slice lo hi xs =
     map (nth xs) (filter (\<lambda>i. lo \<le> of_nat i \<and> of_nat i < hi) [0..<length xs])"

text \<open>The body of a list response with the given total and page of products.\<close>

definition list_body :: "list_query \<Rightarrow> nat \<Rightarrow> product list \<Rightarrow> resbody" where
  "list_body q n ps =
     Json (JObj [(''total'', JNum (Finite (of_nat n))),
                 (''page'', JNum (as_parseInt (page_or_default q))),
                 (''limit'', JNum (as_parseInt (limit_or_default q))),
                 (''products'', JArr (map JObj ps))])"

text \<open>A record whose name or description contains \<open>q\<close>, case-insensitively.\<close>

definition field_contains :: "string \<Rightarrow> jsval \<Rightarrow> bool" where
  "field_contains q v =
     (case v of JStr s \<Rightarrow> str_includes (toLowerCase s) (toLowerCase q) | _ \<Rightarrow> False)"

definition search_hit :: "string \<Rightarrow> product \<Rightarrow> bool" where
  "search_hit q p =
     (field_contains q (getprop p ''name'') \<or> field_contains q (getprop p ''description''))"

text \<open>
  The records on which the callback of the search throws for the query \<open>q\<close>: the name is
  not a string, or the name does not contain \<open>q\<close> and the description is not a string.
\<close>

definition search_throws :: "string \<Rightarrow> product \<Rightarrow> bool" where
  "search_throws q p =
     (if is_string (getprop p ''name'')
      then \<not> field_contains q (getprop p ''name'') \<and> \<not> is_string (getprop p ''description'')
      else True)"

text \<open>The error envelope \<open>{error: {message, status, timestamp}}\<close>, sent with the status
  it carries.\<close>

definition error_envelope :: "string \<Rightarrow> nat \<Rightarrow> string \<Rightarrow> response" where
  "error_envelope msg code ts =
     \<lparr>res_status = code,
      res_body = Json (JObj [(''error'',
        JObj [(''message'', JStr msg),
              (''status'', JNum (Finite (of_nat code))),
              (''timestamp'', JStr ts)])])\<rparr>"

text \<open>The ids of the records of a store, in store order.\<close>

definition ids_of :: "store \<Rightarrow> jsval list" where
  "ids_of products = map (\<lambda>p. getprop p ''id'') products"

section \<open>Properties of the helpers\<close>

lemma map_of_fold_update:
  "distinct (map fst b) \<Longrightarrow>
   map_of (fold (\<lambda>(k, v). AList.update k v) b a) k =
     (case map_of b k of None \<Rightarrow> map_of a k | Some v \<Rightarrow> Some v)"
proof (induction b arbitrary: a)
  case Nil
  then show ?case by simp
next
  case (Cons x b)
  obtain k' v' where x: "x = (k', v')" by (cases x)
  from Cons.prems x have notin: "map_of b k' = None" and d: "distinct (map fst b)"
    by (auto simp: map_of_eq_None_iff)
  show ?case
    using Cons.IH [OF d, of "AList.update k' v' a"] notin
    by (cases "k = k'") (simp_all add: x AList.update_conv' split: option.splits)
qed

lemma getprop_spread:
  "distinct (map fst b) \<Longrightarrow>
   getprop (spread a b) k = (if k \<in> fst ` set b then getprop b k else getprop a k)"
proof (cases "map_of b k")
  case None
  assume "distinct (map fst b)"
  moreover from None have "k \<notin> fst ` set b"
    by (simp add: map_of_eq_None_iff)
  ultimately show ?thesis
    using None by (simp add: getprop_def spread_def map_of_fold_update)
next
  case (Some v)
  assume "distinct (map fst b)"
  moreover from Some have "k \<in> fst ` set b"
    by (metis map_of_eq_None_iff option.distinct(1))
  ultimately show ?thesis
    using Some by (simp add: getprop_def spread_def map_of_fold_update)
qed

lemma findIndex_Some:
  "findIndex f xs = Some i \<Longrightarrow> i < length xs \<and> f (xs ! i) \<and> (\<forall>j<i. \<not> f (xs ! j))"
proof (induction xs arbitrary: i)
  case Nil
  then show ?case by simp
next
  case (Cons x xs)
  show ?case
  proof (cases "f x")
    case True
    with Cons.prems show ?thesis by simp
  next
    case False
    with Cons.prems obtain i' where i': "findIndex f xs = Some i'" "i = Suc i'"
      by auto
    from Cons.IH [OF i'(1)] False i'(2) show ?thesis
      by (auto simp: less_Suc_eq_0_disj)
  qed
qed

lemma findIndex_None: "findIndex f xs = None \<longleftrightarrow> (\<forall>x\<in>set xs. \<not> f x)"
  by (induction xs) auto

lemma find_findIndex: "List.find f xs = map_option (nth xs) (findIndex f xs)"
  by (induction xs) (auto simp: option.map_comp comp_def)

lemma find_update_first:
  "findIndex f xs = Some i \<Longrightarrow> f y \<Longrightarrow> List.find f (xs[i := y]) = Some y"
proof (induction xs arbitrary: i)
  case Nil
  then show ?case by simp
next
  case (Cons x xs)
  then show ?case by (cases "f x") auto
qed

lemma authenticate_ok:
  "x_api_key req = Some k \<Longrightarrow> k \<noteq> [] \<Longrightarrow> API_KEY e = Some k \<Longrightarrow> authenticate e req = None"
  by (simp add: authenticate_def)

lemma getprop_absent: "k \<notin> fst ` set obj \<Longrightarrow> getprop obj k = JUndefined"
proof -
  assume "k \<notin> fst ` set obj"
  then have "map_of obj k = None"
    by (simp add: map_of_eq_None_iff)
  then show ?thesis
    by (simp add: getprop_def)
qed

text \<open>The validator lets a body through exactly when its name and category are truthy
  and its price is a positive number.\<close>

lemma validateProduct_None_iff:
  "validateProduct req = None \<longleftrightarrow>
     truthy (getprop (req_body req) ''name'') \<and>
     truthy (getprop (req_body req) ''category'') \<and>
     positive_number (getprop (req_body req) ''price'')"
proof -
  have "truthy v \<and> \<not> not_positive_number v \<longleftrightarrow> positive_number v" for v
  proof (cases v)
    case (JNum n)
    then show ?thesis by (cases n) auto
  qed simp_all
  then show ?thesis
    by (auto simp: validateProduct_def)
qed

lemma validateProduct_Some:
  "validateProduct req = Some err \<Longrightarrow>
     err = ValidationError ''Name, price, and category are required'' \<or>
     err = ValidationError ''Price must be a positive number''"
  by (auto simp: validateProduct_def split: if_splits)

lemma error_handler_ValidationError:
  "msg \<noteq> [] \<Longrightarrow> error_handler now (ValidationError msg) = error_envelope msg 400 now"
  by (simp add: error_handler_def ValidationError_def error_envelope_def)

lemma error_handler_NotFoundError:
  "msg \<noteq> [] \<Longrightarrow> error_handler now (NotFoundError msg) = error_envelope msg 404 now"
  by (simp add: error_handler_def NotFoundError_def error_envelope_def)

lemma error_handler_TypeError:
  "error_handler now TypeError = error_envelope ''TypeError'' 500 now"
  by (simp add: error_handler_def TypeError_def error_envelope_def)

text \<open>A request that the parser lets through reaches its route unchanged.\<close>

lemma express_json_parsed:
  "in_json r = Inr b \<Longrightarrow> express_json r = Inr \<lparr>x_api_key = in_x_api_key r, req_body = b\<rparr>"
  by (simp add: express_json_def)

lemma express_json_refused: "in_json r = Inl err \<Longrightarrow> express_json r = Inl err"
  by (simp add: express_json_def)

lemma app_routes_parsed:
  assumes "in_json r = Inr b"
  shows "app_post_products e now uuid r products =
           post_products e now uuid \<lparr>x_api_key = in_x_api_key r, req_body = b\<rparr> products"
    and "app_put_product e now i r products =
           put_product e now i \<lparr>x_api_key = in_x_api_key r, req_body = b\<rparr> products"
    and "app_delete_product e now i r products =
           delete_product e now i \<lparr>x_api_key = in_x_api_key r, req_body = b\<rparr> products"
    and "app_get_products now r q products = get_products now q products"
    and "app_search_products now r sq products = search_products now sq products"
    and "app_get_product now r i products = get_product now i products"
    and "app_unmatched now r = not_found_handler now"
  by (simp_all add: app_post_products_def app_put_product_def app_delete_product_def
      app_get_products_def app_search_products_def app_get_product_def app_unmatched_def
      express_json_parsed [OF assms])

lemma app_routes_refused:
  assumes "in_json r = Inl err"
  shows "app_post_products e now uuid r products = (error_handler now err, products)"
    and "app_put_product e now i r products = (error_handler now err, products)"
    and "app_delete_product e now i r products = (error_handler now err, products)"
    and "app_get_products now r q products = error_handler now err"
    and "app_search_products now r sq products = error_handler now err"
    and "app_get_product now r i products = error_handler now err"
    and "app_unmatched now r = error_handler now err"
  by (simp_all add: app_post_products_def app_put_product_def app_delete_product_def
      app_get_products_def app_search_products_def app_get_product_def app_unmatched_def
      express_json_refused [OF assms])

section \<open>Update\<close>

text \<open>
  An authorized update that passes the validator, on an id that \<open>getById\<close> finds, merges
  the body over the stored record in place.
\<close>

lemma put_product_valid:
  assumes auth: "x_api_key req = Some k" "k \<noteq> []" "API_KEY e = Some k"
    and valid: "validateProduct req = None"
    and obj: "distinct (map fst (req_body req))"
    and old: "List.find (has_id i) products = Some old"
  shows "\<exists>index<length products.
           products ! index = old \<and>
           put_product e now i req products =
             (\<lparr>res_status = 200, res_body = Json (JObj (spread old (req_body req)))\<rparr>,
              products[index := spread old (req_body req)]) \<and>
           (\<forall>f. getprop (spread old (req_body req)) f =
                  (if f \<in> fst ` set (req_body req) then getprop (req_body req) f
                   else getprop old f)) \<and>
           (''id'' \<notin> fst ` set (req_body req) \<longrightarrow>
              get_product now i (snd (put_product e now i req products)) =
                \<lparr>res_status = 200, res_body = Json (JObj (spread old (req_body req)))\<rparr>)"
proof -
  from old obtain index where ix: "findIndex (has_id i) products = Some index"
    and nth: "products ! index = old"
    by (auto simp: find_findIndex)
  from findIndex_Some [OF ix] have len: "index < length products" and hid: "has_id i old"
    using nth by auto
  have a: "authenticate e req = None"
    using auth by (rule authenticate_ok)
  have put: "put_product e now i req products =
      (\<lparr>res_status = 200, res_body = Json (JObj (spread old (req_body req)))\<rparr>,
       products[index := spread old (req_body req)])"
    by (simp add: put_product_def a valid ix nth Let_def)
  have frame: "\<forall>f. getprop (spread old (req_body req)) f =
      (if f \<in> fst ` set (req_body req) then getprop (req_body req) f else getprop old f)"
    using obj by (simp add: getprop_spread)
  have get: "get_product now i (snd (put_product e now i req products)) =
      \<lparr>res_status = 200, res_body = Json (JObj (spread old (req_body req)))\<rparr>"
    if "''id'' \<notin> fst ` set (req_body req)"
  proof -
    from that frame hid have "has_id i (spread old (req_body req))"
      by (simp add: has_id_def)
    from find_update_first [OF ix this] show ?thesis
      by (simp add: put get_product_def)
  qed
  from len nth put frame get show ?thesis by blast
qed

text \<open>
  An authorized update whose body the validator refuses is answered with the 400
  envelope of a \<open>ValidationError\<close> and returns the store as it was.
\<close>

lemma put_product_invalid:
  assumes auth: "x_api_key req = Some k" "k \<noteq> []" "API_KEY e = Some k"
    and invalid: "\<not> (truthy (getprop (req_body req) ''name'') \<and>
                      truthy (getprop (req_body req) ''category'') \<and>
                      positive_number (getprop (req_body req) ''price''))"
  shows "\<exists>msg. put_product e now i req products = (error_envelope msg 400 now, products) \<and>
           (msg = ''Name, price, and category are required'' \<or>
            msg = ''Price must be a positive number'')"
proof -
  have a: "authenticate e req = None"
    using auth by (rule authenticate_ok)
  from invalid have "validateProduct req \<noteq> None"
    by (simp add: validateProduct_None_iff)
  then obtain err where err: "validateProduct req = Some err"
    by blast
  from validateProduct_Some [OF this] obtain msg
    where msg: "err = ValidationError msg" "msg \<noteq> []"
      "msg = ''Name, price, and category are required'' \<or>
       msg = ''Price must be a positive number''"
    by auto
  then have "put_product e now i req products = (error_envelope msg 400 now, products)"
    by (simp add: put_product_def a err error_handler_ValidationError)
  with msg(3) show ?thesis
    by blast
qed

text \<open>
  Claim C1, as amended. The validator guards the update route too, so an update body must
  itself carry a truthy name and category and a positive price. For an authorized update
  that passes the validator, on an id that \<open>getById\<close> finds: the request is answered with
  status 200 and the merged record, the merged record replaces the old one in place,
  every field the body supplies has the body's value and every other field keeps its
  stored value, and when the body does not supply \<open>id\<close> a following \<open>getById(id)\<close> returns
  the merged record. Every authorized update whose body lacks a truthy name, a truthy
  category or a positive price, such as the single-field body \<open>{price: 50}\<close>, is answered
  with the 400 envelope of the validator, and the store is returned as it was.
\<close>

theorem put_product_merges:
  assumes auth: "x_api_key req = Some k" "k \<noteq> []" "API_KEY e = Some k"
    and obj: "distinct (map fst (req_body req))"
  shows "(validateProduct req = None \<longrightarrow>
           (\<forall>old. List.find (has_id i) products = Some old \<longrightarrow>
              (\<exists>index<length products.
                 products ! index = old \<and>
                 put_product e now i req products =
                   (\<lparr>res_status = 200, res_body = Json (JObj (spread old (req_body req)))\<rparr>,
                    products[index := spread old (req_body req)]) \<and>
                 (\<forall>f. getprop (spread old (req_body req)) f =
                        (if f \<in> fst ` set (req_body req) then getprop (req_body req) f
                         else getprop old f)) \<and>
                 (''id'' \<notin> fst ` set (req_body req) \<longrightarrow>
                    get_product now i (snd (put_product e now i req products)) =
                      \<lparr>res_status = 200,
                       res_body = Json (JObj (spread old (req_body req)))\<rparr>)))) \<and>
         (\<not> (truthy (getprop (req_body req) ''name'') \<and>
              truthy (getprop (req_body req) ''category'') \<and>
              positive_number (getprop (req_body req) ''price'')) \<longrightarrow>
           (\<exists>msg. put_product e now i req products = (error_envelope msg 400 now, products) \<and>
              (msg = ''Name, price, and category are required'' \<or>
               msg = ''Price must be a positive number'')))"
proof (intro conjI impI allI)
  fix old
  assume valid: "validateProduct req = None" and old: "List.find (has_id i) products = Some old"
  show "\<exists>index<length products.
      products ! index = old \<and>
      put_product e now i req products =
        (\<lparr>res_status = 200, res_body = Json (JObj (spread old (req_body req)))\<rparr>,
         products[index := spread old (req_body req)]) \<and>
      (\<forall>f. getprop (spread old (req_body req)) f =
             (if f \<in> fst ` set (req_body req) then getprop (req_body req) f
              else getprop old f)) \<and>
      (''id'' \<notin> fst ` set (req_body req) \<longrightarrow>
         get_product now i (snd (put_product e now i req products)) =
           \<lparr>res_status = 200, res_body = Json (JObj (spread old (req_body req)))\<rparr>)"
    by (rule put_product_valid [OF auth valid obj old])
next
  assume "\<not> (truthy (getprop (req_body req) ''name'') \<and>
      truthy (getprop (req_body req) ''category'') \<and>
      positive_number (getprop (req_body req) ''price''))"
  then show "\<exists>msg. put_product e now i req products = (error_envelope msg 400 now, products) \<and>
      (msg = ''Name, price, and category are required'' \<or>
       msg = ''Price must be a positive number'')"
    by (rule put_product_invalid [OF auth])
qed

text \<open>
  The claim as stated fails: on the seeded store, the authorized update of the first
  record with the body \<open>{price: 50}\<close> is answered with the 400 envelope of the validator
  and leaves the store as it was.
\<close>

theorem put_price_only_rejected:
  "put_product \<lparr>API_KEY = Some ''secret''\<rparr> ''2026-01-01T00:00:00.000Z'' ''a''
     \<lparr>x_api_key = Some ''secret'', req_body = [(''price'', JNum (Finite 50))]\<rparr>
     (seed_products ''a'' ''b'' ''c'') =
   (\<lparr>res_status = 400,
     res_body = Json (JObj [(''error'',
       JObj [(''message'', JStr ''Name, price, and category are required''),
             (''status'', JNum (Finite 400)),
             (''timestamp'', JStr ''2026-01-01T00:00:00.000Z'')])])\<rparr>,
    seed_products ''a'' ''b'' ''c'')"
  by (simp add: put_product_def authenticate_def validateProduct_def getprop_def
      error_handler_def ValidationError_def)

text \<open>
  An instance: the seeded laptop, updated with a body that carries its name and category
  and the new price 50, is read back with the price 50 and its id, description and stock
  flag as before; updated with a body that carries no category, it is refused.
\<close>

theorem put_product_merges_witness:
  "get_product ''2026-01-01T00:00:00.000Z'' ''a''
     (snd (put_product \<lparr>API_KEY = Some ''secret''\<rparr> ''2026-01-01T00:00:00.000Z'' ''a''
        \<lparr>x_api_key = Some ''secret'',
         req_body = [(''name'', JStr ''Laptop''), (''price'', JNum (Finite 50)),
                     (''category'', JStr ''Electronics'')]\<rparr>
        (seed_products ''a'' ''b'' ''c''))) =
   \<lparr>res_status = 200,
    res_body = Json (JObj
      [(''id'', JStr ''a''), (''name'', JStr ''Laptop''),
       (''description'', JStr ''High performance laptop''),
       (''price'', JNum (Finite 50)), (''category'', JStr ''Electronics''),
       (''inStock'', JBool True)])\<rparr> \<and>
   put_product \<lparr>API_KEY = Some ''secret''\<rparr> ''2026-01-01T00:00:00.000Z'' ''a''
     \<lparr>x_api_key = Some ''secret'',
      req_body = [(''name'', JStr ''Laptop''), (''price'', JNum (Finite 50))]\<rparr>
     (seed_products ''a'' ''b'' ''c'') =
   (error_envelope ''Name, price, and category are required'' 400 ''2026-01-01T00:00:00.000Z'',
    seed_products ''a'' ''b'' ''c'')"
proof -
  let ?e = "\<lparr>API_KEY = Some ''secret''\<rparr>"
  let ?now = "''2026-01-01T00:00:00.000Z''"
  let ?req = "\<lparr>x_api_key = Some ''secret'',
         req_body = [(''name'', JStr ''Laptop''), (''price'', JNum (Finite 50)),
                     (''category'', JStr ''Electronics'')]\<rparr>"
  let ?bad = "\<lparr>x_api_key = Some ''secret'',
         req_body = [(''name'', JStr ''Laptop''), (''price'', JNum (Finite 50))]\<rparr>"
  let ?old = "[(''id'', JStr ''a''), (''name'', JStr ''Laptop''),
        (''description'', JStr ''High performance laptop''),
        (''price'', JNum (Finite (99999 / 100))), (''category'', JStr ''Electronics''),
        (''inStock'', JBool True)]"
  have h1: "x_api_key ?req = Some ''secret''" by simp
  have h2: "''secret'' \<noteq> []" by simp
  have h3: "API_KEY ?e = Some ''secret''" by simp
  have h4: "validateProduct ?req = None"
    by (simp add: validateProduct_def getprop_def)
  have h5: "distinct (map fst (req_body ?req))" by simp
  have h6: "List.find (has_id ''a'') (seed_products ''a'' ''b'' ''c'') = Some ?old"
    by (simp add: seed_products_def has_id_def getprop_def)
  have h7: "''id'' \<notin> fst ` set (req_body ?req)" by simp
  from put_product_merges [OF h1 h2 h3 h5, of "''a''" "seed_products ''a'' ''b'' ''c''" ?now]
    h4 h6 h7
  have "get_product ?now ''a'' (snd (put_product ?e ?now ''a'' ?req (seed_products ''a'' ''b'' ''c''))) =
     \<lparr>res_status = 200, res_body = Json (JObj (spread ?old (req_body ?req)))\<rparr>"
    by blast
  then have merged: "get_product ?now ''a''
      (snd (put_product ?e ?now ''a'' ?req (seed_products ''a'' ''b'' ''c''))) =
     \<lparr>res_status = 200,
      res_body = Json (JObj
        [(''id'', JStr ''a''), (''name'', JStr ''Laptop''),
         (''description'', JStr ''High performance laptop''),
         (''price'', JNum (Finite 50)), (''category'', JStr ''Electronics''),
         (''inStock'', JBool True)])\<rparr>"
    by (simp add: spread_def)
  have b1: "x_api_key ?bad = Some ''secret''" by simp
  have b5: "distinct (map fst (req_body ?bad))" by simp
  have b4: "\<not> (truthy (getprop (req_body ?bad) ''name'') \<and>
      truthy (getprop (req_body ?bad) ''category'') \<and>
      positive_number (getprop (req_body ?bad) ''price''))"
    by (simp add: getprop_def)
  from put_product_merges [OF b1 h2 h3 b5, of "''a''" "seed_products ''a'' ''b'' ''c''" ?now] b4
  obtain msg where
    "put_product ?e ?now ''a'' ?bad (seed_products ''a'' ''b'' ''c'') =
       (error_envelope msg 400 ?now, seed_products ''a'' ''b'' ''c'')"
    by blast
  then have refused: "put_product ?e ?now ''a'' ?bad (seed_products ''a'' ''b'' ''c'') =
      (error_envelope ''Name, price, and category are required'' 400 ?now,
       seed_products ''a'' ''b'' ''c'')"
    by (auto simp: put_product_def authenticate_def validateProduct_def getprop_def
        error_handler_def ValidationError_def error_envelope_def)
  from merged refused show ?thesis
    by (rule conjI)
qed

text \<open>
  The ids under the three mutating routes. Create appends one id, the one \<open>uuidv4()\<close>
  drew, or changes nothing; delete removes one id or changes nothing; update changes
  no id when the body carries none.
\<close>

lemma post_products_ids:
  "ids_of (snd (post_products e now uuid req products)) = ids_of products \<or>
   ids_of (snd (post_products e now uuid req products)) = ids_of products @ [JStr uuid]"
  by (simp add: post_products_def ids_of_def getprop_def Let_def split: option.splits)

lemma delete_product_ids:
  "ids_of (snd (delete_product e now i req products)) = ids_of products \<or>
   (\<exists>index. ids_of (snd (delete_product e now i req products)) =
      take index (ids_of products) @ drop (Suc index) (ids_of products))"
  by (auto simp: delete_product_def ids_of_def take_map drop_map split: option.splits)

lemma put_product_ids:
  assumes "distinct (map fst (req_body req))" and "''id'' \<notin> fst ` set (req_body req)"
  shows "ids_of (snd (put_product e now i req products)) = ids_of products"
proof (cases "findIndex (has_id i) products")
  case None
  then show ?thesis
    by (simp add: put_product_def split: option.splits)
next
  case (Some index)
  from assms have "getprop (spread (products ! index) (req_body req)) ''id'' =
      getprop (products ! index) ''id''"
    by (simp add: getprop_spread)
  moreover from findIndex_Some [OF Some] have "index < length products"
    by simp
  ultimately have "ids_of (products[index := spread (products ! index) (req_body req)]) =
      ids_of products"
    by (simp add: ids_of_def map_update list_update_same_conv)
  with Some show ?thesis
    by (simp add: put_product_def Let_def split: option.splits)
qed

text \<open>
  Claim C2 asks that no operation changes the id of a record and that ids stay pairwise
  distinct. The merge of the update route copies every property of the body, \<open>id\<close>
  included: on the seeded store with the ids \<open>a\<close>, \<open>b\<close>, \<open>c\<close>, the authorized update of
  record \<open>a\<close> with a valid body that also carries \<open>id: b\<close> leaves a store whose first two
  records both have the id \<open>b\<close>.
\<close>

theorem put_overwrites_id:
  "ids_of (snd (put_product \<lparr>API_KEY = Some ''secret''\<rparr> ''2026-01-01T00:00:00.000Z'' ''a''
     \<lparr>x_api_key = Some ''secret'',
      req_body = [(''id'', JStr ''b''), (''name'', JStr ''Laptop''),
                  (''price'', JNum (Finite 50)), (''category'', JStr ''Electronics'')]\<rparr>
     (seed_products ''a'' ''b'' ''c''))) =
   [JStr ''b'', JStr ''b'', JStr ''c'']"
  by (simp add: put_product_def authenticate_def validateProduct_def getprop_def
      seed_products_def has_id_def spread_def ids_of_def Let_def)

section \<open>Create\<close>

text \<open>
  Claim C3. An authorized create request that passes the validator and whose body leaves
  \<open>inStock\<close> out, or gives it as \<open>false\<close>, is answered with status 201 and the created
  record, the record is appended to the store, and its \<open>inStock\<close> is \<open>true\<close>: the default
  \<open>req.body.inStock || true\<close> does not tell the two cases apart.
\<close>

theorem post_products_inStock_true:
  assumes auth: "x_api_key req = Some k" "k \<noteq> []" "API_KEY e = Some k"
    and valid: "validateProduct req = None"
    and inStock: "''inStock'' \<notin> fst ` set (req_body req) \<or>
                  getprop (req_body req) ''inStock'' = JBool False"
  shows "\<exists>product.
           post_products e now uuid req products =
             (\<lparr>res_status = 201, res_body = Json (JObj product)\<rparr>, products @ [product]) \<and>
           getprop product ''inStock'' = JBool True"
proof -
  have a: "authenticate e req = None"
    using auth by (rule authenticate_ok)
  from inStock have "\<not> truthy (getprop (req_body req) ''inStock'')"
    by (auto simp: getprop_absent)
  then have "js_or (getprop (req_body req) ''inStock'') (JBool True) = JBool True"
    by (simp add: js_or_def)
  then show ?thesis
    by (simp add: post_products_def a valid Let_def getprop_def)
qed

text \<open>An instance: a valid body with \<open>inStock: false\<close> creates a record that is in stock.\<close>

theorem post_products_inStock_true_witness:
  "post_products \<lparr>API_KEY = Some ''secret''\<rparr> ''2026-01-01T00:00:00.000Z'' ''d''
     \<lparr>x_api_key = Some ''secret'',
      req_body = [(''name'', JStr ''Mouse''), (''price'', JNum (Finite 25)),
                  (''category'', JStr ''Electronics''), (''inStock'', JBool False)]\<rparr> [] =
    (\<lparr>res_status = 201, res_body = Json (JObj
        [(''id'', JStr ''d''), (''name'', JStr ''Mouse''), (''description'', JUndefined),
         (''price'', JNum (Finite 25)), (''category'', JStr ''Electronics''),
         (''inStock'', JBool True)])\<rparr>,
     [[(''id'', JStr ''d''), (''name'', JStr ''Mouse''), (''description'', JUndefined),
         (''price'', JNum (Finite 25)), (''category'', JStr ''Electronics''),
         (''inStock'', JBool True)]])"
proof -
  let ?req = "\<lparr>x_api_key = Some ''secret'',
      req_body = [(''name'', JStr ''Mouse''), (''price'', JNum (Finite 25)),
                  (''category'', JStr ''Electronics''), (''inStock'', JBool False)]\<rparr>"
  have h1: "x_api_key ?req = Some ''secret''" by simp
  have h2: "''secret'' \<noteq> []" by simp
  have h3: "API_KEY \<lparr>API_KEY = Some ''secret''\<rparr> = Some ''secret''" by simp
  have h4: "validateProduct ?req = None"
    by (simp add: validateProduct_def getprop_def)
  have h5: "''inStock'' \<notin> fst ` set (req_body ?req) \<or>
            getprop (req_body ?req) ''inStock'' = JBool False"
    by (simp add: getprop_def)
  from post_products_inStock_true [OF h1 h2 h3 h4 h5, of "''2026-01-01T00:00:00.000Z''" "''d''" "[]"]
  obtain product where
    "post_products \<lparr>API_KEY = Some ''secret''\<rparr> ''2026-01-01T00:00:00.000Z'' ''d'' ?req [] =
       (\<lparr>res_status = 201, res_body = Json (JObj product)\<rparr>, [] @ [product])"
    by blast
  then show ?thesis
    by (auto simp: post_products_def authenticate_def validateProduct_def getprop_def js_or_def
        Let_def)
qed

text \<open>
  Claim C7. An authorized create request whose body has no name, no category, or a price
  that is not a positive number (left out, not a number, zero or negative such as \<open>-5\<close>)
  is answered with the error envelope of a \<open>ValidationError\<close>, status 400, carrying one of
  the validator's two messages, and the store is returned as it was.
\<close>

theorem post_products_invalid_rejected:
  assumes auth: "x_api_key req = Some k" "k \<noteq> []" "API_KEY e = Some k"
    and invalid: "getprop (req_body req) ''name'' = JUndefined \<or>
                  getprop (req_body req) ''category'' = JUndefined \<or>
                  \<not> positive_number (getprop (req_body req) ''price'')"
  shows "\<exists>msg. post_products e now uuid req products = (error_envelope msg 400 now, products) \<and>
           error_handler now (ValidationError msg) = error_envelope msg 400 now \<and>
           (msg = ''Name, price, and category are required'' \<or>
            msg = ''Price must be a positive number'')"
proof -
  have a: "authenticate e req = None"
    using auth by (rule authenticate_ok)
  from invalid have "validateProduct req \<noteq> None"
    by (auto simp: validateProduct_None_iff)
  then obtain err where err: "validateProduct req = Some err"
    by blast
  from validateProduct_Some [OF this] obtain msg
    where msg: "err = ValidationError msg" "msg \<noteq> []"
      "msg = ''Name, price, and category are required'' \<or>
       msg = ''Price must be a positive number''"
    by auto
  then have "post_products e now uuid req products = (error_envelope msg 400 now, products)"
    by (simp add: post_products_def a err error_handler_ValidationError)
  with msg show ?thesis
    by (auto simp: error_handler_ValidationError)
qed

text \<open>An instance: the price \<open>-5\<close> on the seeded store.\<close>

theorem post_products_invalid_rejected_witness:
  "post_products \<lparr>API_KEY = Some ''secret''\<rparr> ''2026-01-01T00:00:00.000Z'' ''d''
     \<lparr>x_api_key = Some ''secret'',
      req_body = [(''name'', JStr ''Mouse''), (''price'', JNum (Finite (- 5))),
                  (''category'', JStr ''Electronics'')]\<rparr>
     (seed_products ''a'' ''b'' ''c'') =
   (error_envelope ''Price must be a positive number'' 400 ''2026-01-01T00:00:00.000Z'',
    seed_products ''a'' ''b'' ''c'')"
proof -
  let ?req = "\<lparr>x_api_key = Some ''secret'',
      req_body = [(''name'', JStr ''Mouse''), (''price'', JNum (Finite (- 5))),
                  (''category'', JStr ''Electronics'')]\<rparr>"
  have h1: "x_api_key ?req = Some ''secret''" by simp
  have h2: "''secret'' \<noteq> []" by simp
  have h3: "API_KEY \<lparr>API_KEY = Some ''secret''\<rparr> = Some ''secret''" by simp
  have h4: "getprop (req_body ?req) ''name'' = JUndefined \<or>
            getprop (req_body ?req) ''category'' = JUndefined \<or>
            \<not> positive_number (getprop (req_body ?req) ''price'')"
    by (simp add: getprop_def)
  from post_products_invalid_rejected [OF h1 h2 h3 h4,
      of "''2026-01-01T00:00:00.000Z''" "''d''" "seed_products ''a'' ''b'' ''c''"]
  obtain msg where
    "post_products \<lparr>API_KEY = Some ''secret''\<rparr> ''2026-01-01T00:00:00.000Z'' ''d'' ?req
       (seed_products ''a'' ''b'' ''c'') =
     (error_envelope msg 400 ''2026-01-01T00:00:00.000Z'', seed_products ''a'' ''b'' ''c'')"
    by blast
  then show ?thesis
    by (auto simp: post_products_def authenticate_def validateProduct_def getprop_def
        error_handler_def ValidationError_def error_envelope_def)
qed

section \<open>Authentication\<close>

text \<open>
  Claim C8, as amended. A create, update or delete request whose \<open>x-api-key\<close> header is
  absent, or is not the configured secret, never changes the store. When the body parser,
  which runs before the authentication, lets the request through, it is answered with
  status 401 and the body \<open>{message: "Unauthorized"}\<close>, which is not the error envelope.
  When the parser refuses the body, the request is answered by the error translator with
  the parser's failure instead, and the authentication is not reached.
\<close>

theorem unauthorized_rejected:
  assumes "in_x_api_key r = None \<or> in_x_api_key r \<noteq> API_KEY e"
  shows "snd (app_post_products e now uuid r products) = products \<and>
         snd (app_put_product e now i r products) = products \<and>
         snd (app_delete_product e now i r products) = products \<and>
         (\<forall>b. in_json r = Inr b \<longrightarrow>
            app_post_products e now uuid r products = (unauthorized, products) \<and>
            app_put_product e now i r products = (unauthorized, products) \<and>
            app_delete_product e now i r products = (unauthorized, products)) \<and>
         (\<forall>err. in_json r = Inl err \<longrightarrow>
            app_post_products e now uuid r products = (error_handler now err, products) \<and>
            app_put_product e now i r products = (error_handler now err, products) \<and>
            app_delete_product e now i r products = (error_handler now err, products)) \<and>
         unauthorized =
           \<lparr>res_status = 401, res_body = Json (JObj [(''message'', JStr ''Unauthorized'')])\<rparr>"
proof -
  have parsed: "app_post_products e now uuid r products = (unauthorized, products) \<and>
      app_put_product e now i r products = (unauthorized, products) \<and>
      app_delete_product e now i r products = (unauthorized, products)"
    if b: "in_json r = Inr b" for b
  proof -
    from assms have "authenticate e \<lparr>x_api_key = in_x_api_key r, req_body = b\<rparr> =
        Some unauthorized"
      by (auto simp: authenticate_def split: option.splits)
    then show ?thesis
      by (simp add: app_routes_parsed [OF b] post_products_def put_product_def
          delete_product_def)
  qed
  have refused: "app_post_products e now uuid r products = (error_handler now err, products) \<and>
      app_put_product e now i r products = (error_handler now err, products) \<and>
      app_delete_product e now i r products = (error_handler now err, products)"
    if "in_json r = Inl err" for err
    by (simp add: app_routes_refused [OF that])
  have same: "snd (app_post_products e now uuid r products) = products \<and>
      snd (app_put_product e now i r products) = products \<and>
      snd (app_delete_product e now i r products) = products"
  proof (cases "in_json r")
    case (Inl err)
    from refused [OF this] show ?thesis by simp
  next
    case (Inr b)
    from parsed [OF this] show ?thesis by simp
  qed
  from parsed refused same show ?thesis
    by (simp add: unauthorized_def)
qed

text \<open>
  The claim as stated fails: a delete request without a key whose JSON body does not
  parse is answered with the parser's failure in the error envelope, status 400, not
  with 401. (The message is the engine's; the body \<open>{\<close> gives this one.)
\<close>

theorem unauthorized_unparsed_body:
  "app_delete_product \<lparr>API_KEY = Some ''secret''\<rparr> ''2026-01-01T00:00:00.000Z'' ''a''
     \<lparr>in_x_api_key = None,
      in_json = Inl \<lparr>message = ''Unexpected end of JSON input'', statusCode = Some 400\<rparr>\<rparr>
     (seed_products ''a'' ''b'' ''c'') =
   (\<lparr>res_status = 400,
     res_body = Json (JObj [(''error'',
       JObj [(''message'', JStr ''Unexpected end of JSON input''),
             (''status'', JNum (Finite 400)),
             (''timestamp'', JStr ''2026-01-01T00:00:00.000Z'')])])\<rparr>,
    seed_products ''a'' ''b'' ''c'')"
  by (simp add: app_delete_product_def express_json_def error_handler_def)

text \<open>An instance: a delete request with a wrong key and an empty object as body.\<close>

theorem unauthorized_rejected_witness:
  "app_delete_product \<lparr>API_KEY = Some ''secret''\<rparr> ''2026-01-01T00:00:00.000Z'' ''a''
     \<lparr>in_x_api_key = Some ''guess'', in_json = Inr []\<rparr> (seed_products ''a'' ''b'' ''c'') =
   (\<lparr>res_status = 401, res_body = Json (JObj [(''message'', JStr ''Unauthorized'')])\<rparr>,
    seed_products ''a'' ''b'' ''c'')"
proof -
  let ?r = "\<lparr>in_x_api_key = Some ''guess'', in_json = Inr []\<rparr>"
  have h: "in_x_api_key ?r = None \<or> in_x_api_key ?r \<noteq> API_KEY \<lparr>API_KEY = Some ''secret''\<rparr>"
    by simp
  have p: "in_json ?r = Inr []" by simp
  from unauthorized_rejected [OF h] p show ?thesis
    by simp
qed

section \<open>The error translator\<close>

text \<open>
  Claim C10, as amended. The error translator answers every failure with the envelope
  \<open>{error: {message, status, timestamp}}\<close>, whose \<open>status\<close> is also the status of the
  response: the code the failure declares when that is not 0, which is 400 for a
  \<open>ValidationError\<close> and 404 for a \<open>NotFoundError\<close>, and 500 for a failure that declares no
  code (or 0), such as a \<open>TypeError\<close>. A request that no route matches gets the envelope
  with status 404 and the message \<open>Endpoint not found\<close> when the body parser, which runs
  first, lets it through; when the parser refuses its body it gets the envelope of the
  parser's failure.
\<close>

theorem error_handler_envelope:
  "(\<forall>c. statusCode err = Some c \<and> c \<noteq> 0 \<longrightarrow>
      (\<exists>msg. error_handler now err = error_envelope msg c now)) \<and>
   (statusCode err = None \<or> statusCode err = Some 0 \<longrightarrow>
      (\<exists>msg. error_handler now err = error_envelope msg 500 now)) \<and>
   (\<exists>msg. error_handler now (ValidationError m) = error_envelope msg 400 now) \<and>
   (\<exists>msg. error_handler now (NotFoundError m) = error_envelope msg 404 now) \<and>
   (\<exists>msg. error_handler now TypeError = error_envelope msg 500 now) \<and>
   not_found_handler now = error_envelope ''Endpoint not found'' 404 now \<and>
   (\<forall>b. in_json r = Inr b \<longrightarrow>
      app_unmatched now r = error_envelope ''Endpoint not found'' 404 now) \<and>
   (\<forall>perr. in_json r = Inl perr \<longrightarrow> app_unmatched now r = error_handler now perr)"
proof -
  have "\<forall>b. in_json r = Inr b \<longrightarrow>
      app_unmatched now r = error_envelope ''Endpoint not found'' 404 now"
    by (simp add: app_routes_parsed not_found_handler_def error_handler_NotFoundError)
  moreover have "\<forall>perr. in_json r = Inl perr \<longrightarrow> app_unmatched now r = error_handler now perr"
    by (simp add: app_routes_refused)
  moreover have "(\<forall>c. statusCode err = Some c \<and> c \<noteq> 0 \<longrightarrow>
      (\<exists>msg. error_handler now err = error_envelope msg c now)) \<and>
   (statusCode err = None \<or> statusCode err = Some 0 \<longrightarrow>
      (\<exists>msg. error_handler now err = error_envelope msg 500 now)) \<and>
   (\<exists>msg. error_handler now (ValidationError m) = error_envelope msg 400 now) \<and>
   (\<exists>msg. error_handler now (NotFoundError m) = error_envelope msg 404 now) \<and>
   (\<exists>msg. error_handler now TypeError = error_envelope msg 500 now) \<and>
   not_found_handler now = error_envelope ''Endpoint not found'' 404 now"
    by (auto simp: error_handler_def error_envelope_def ValidationError_def NotFoundError_def
        TypeError_def not_found_handler_def)
  ultimately show ?thesis
    by blast
qed

text \<open>
  The claim as stated fails: a request to an unmatched route whose JSON body does not
  parse is answered with the parser's failure, status 400, not with 404; and a failure
  that declares the code 0 is answered with status 500, not 0.
\<close>

theorem unmatched_route_unparsed_body:
  "app_unmatched ''2026-01-01T00:00:00.000Z''
     \<lparr>in_x_api_key = None,
      in_json = Inl \<lparr>message = ''Unexpected end of JSON input'', statusCode = Some 400\<rparr>\<rparr> =
   \<lparr>res_status = 400,
    res_body = Json (JObj [(''error'',
      JObj [(''message'', JStr ''Unexpected end of JSON input''),
            (''status'', JNum (Finite 400)),
            (''timestamp'', JStr ''2026-01-01T00:00:00.000Z'')])])\<rparr> \<and>
   res_status (error_handler ''2026-01-01T00:00:00.000Z''
     \<lparr>message = ''boom'', statusCode = Some 0\<rparr>) = 500"
  by (simp add: app_unmatched_def express_json_def error_handler_def)

text \<open>An instance: a failure that declares the code 418, and a request with an empty
  object as body that no route matches.\<close>

theorem error_handler_envelope_witness:
  "error_handler ''2026-01-01T00:00:00.000Z'' \<lparr>message = ''boom'', statusCode = Some 418\<rparr> =
     \<lparr>res_status = 418,
      res_body = Json (JObj [(''error'',
        JObj [(''message'', JStr ''boom''),
              (''status'', JNum (Finite 418)),
              (''timestamp'', JStr ''2026-01-01T00:00:00.000Z'')])])\<rparr> \<and>
   app_unmatched ''2026-01-01T00:00:00.000Z'' \<lparr>in_x_api_key = None, in_json = Inr []\<rparr> =
     \<lparr>res_status = 404,
      res_body = Json (JObj [(''error'',
        JObj [(''message'', JStr ''Endpoint not found''),
              (''status'', JNum (Finite 404)),
              (''timestamp'', JStr ''2026-01-01T00:00:00.000Z'')])])\<rparr>"
proof -
  let ?err = "\<lparr>message = ''boom'', statusCode = Some 418\<rparr>"
  let ?r = "\<lparr>in_x_api_key = None, in_json = Inr []\<rparr>"
  let ?now = "''2026-01-01T00:00:00.000Z''"
  note inst = error_handler_envelope [of ?err ?now _ ?r]
  have h: "statusCode ?err = Some 418 \<and> (418::nat) \<noteq> 0" by simp
  have p: "in_json ?r = Inr []" by simp
  from inst h obtain msg where "error_handler ?now ?err = error_envelope msg 418 ?now"
    by blast
  then have first: "error_handler ?now ?err =
      \<lparr>res_status = 418,
       res_body = Json (JObj [(''error'',
         JObj [(''message'', JStr ''boom''),
               (''status'', JNum (Finite 418)),
               (''timestamp'', JStr ?now)])])\<rparr>"
    by (auto simp: error_handler_def error_envelope_def)
  from inst p have "app_unmatched ?now ?r = error_envelope ''Endpoint not found'' 404 ?now"
    by blast
  then have second: "app_unmatched ?now ?r =
      \<lparr>res_status = 404,
       res_body = Json (JObj [(''error'',
         JObj [(''message'', JStr ''Endpoint not found''),
               (''status'', JNum (Finite 404)),
               (''timestamp'', JStr ?now)])])\<rparr>"
    by (simp add: error_envelope_def)
  from first second show ?thesis
    by (rule conjI)
qed

section \<open>Search\<close>

text \<open>\<open>str_includes\<close> is the substring relation.\<close>

lemma str_includes_length: "str_includes s t \<Longrightarrow> length t \<le> length s"
proof (induction s)
  case Nil
  then show ?case by simp
next
  case (Cons c s)
  have "starts_with u t \<Longrightarrow> length t \<le> length u" for u
    by (induction u t rule: starts_with.induct) auto
  with Cons show ?case by fastforce
qed

lemma starts_with_iff: "starts_with s t \<longleftrightarrow> (\<exists>suf. s = t @ suf)"
  by (induction s t rule: starts_with.induct) auto

lemma str_includes_iff: "str_includes s t \<longleftrightarrow> (\<exists>pre suf. s = pre @ t @ suf)"
proof (induction s)
  case Nil
  then show ?case by auto
next
  case (Cons c s)
  show ?case
  proof
    assume "str_includes (c # s) t"
    then consider "starts_with (c # s) t" | "str_includes s t" by auto
    then show "\<exists>pre suf. c # s = pre @ t @ suf"
    proof cases
      case 1
      then obtain suf where "c # s = [] @ t @ suf" by (auto simp: starts_with_iff)
      then show ?thesis by blast
    next
      case 2
      with Cons.IH obtain pre suf where "s = pre @ t @ suf" by blast
      then have "c # s = (c # pre) @ t @ suf" by simp
      then show ?thesis by blast
    qed
  next
    assume "\<exists>pre suf. c # s = pre @ t @ suf"
    then obtain pre suf where eq: "c # s = pre @ t @ suf" by blast
    show "str_includes (c # s) t"
    proof (cases pre)
      case Nil
      with eq have "starts_with (c # s) t" by (auto simp: starts_with_iff)
      then show ?thesis by simp
    next
      case (Cons d pre')
      with eq have "s = pre' @ t @ suf" by simp
      with Cons.IH have "str_includes s t" by blast
      then show ?thesis by simp
    qed
  qed
qed

text \<open>What the search callback and the search route compute, by cases.\<close>

lemma filterE_cases:
  assumes "\<And>x. f x = (if t x then Inl e else Inr (g x))"
  shows "filterE f xs = (if \<exists>x\<in>set xs. t x then Inl e else Inr (filter g xs))"
  by (induction xs) (simp_all add: assms)

lemma search_matches_cases:
  "search_matches (QString q) p =
     (if search_throws q p then Inl TypeError else Inr (search_hit q p))"
proof (cases "getprop p ''name''")
  case (JStr n)
  then show ?thesis
    by (cases "getprop p ''description''")
      (simp_all add: search_matches_def search_throws_def search_hit_def is_string_def
        field_contains_def)
qed (simp_all add: search_matches_def search_throws_def is_string_def)

lemma search_products_cases:
  "q \<noteq> [] \<Longrightarrow>
   search_products now (Some (QString q)) products =
     (if \<exists>p\<in>set products. search_throws q p then error_envelope ''TypeError'' 500 now
      else \<lparr>res_status = 200, res_body = Json (JArr (map JObj (filter (search_hit q) products)))\<rparr>)"
  by (simp add: search_products_def filterE_cases [of _ "search_throws q" TypeError "search_hit q"]
      search_matches_cases error_handler_TypeError)

lemma search_products_missing:
  "search_products now None products = error_envelope ''Search query is required'' 400 now"
  "search_products now (Some (QString [])) products =
     error_envelope ''Search query is required'' 400 now"
  by (simp_all add: search_products_def error_handler_ValidationError)

text \<open>
  Where every record's name and description are strings, the search returns exactly the
  records whose name or description contains the query, in store order.
\<close>

lemma search_products_strings:
  assumes "q \<noteq> []"
    and "\<forall>p\<in>set products.
           is_string (getprop p ''name'') \<and> is_string (getprop p ''description'')"
  shows "search_products now (Some (QString q)) products =
           \<lparr>res_status = 200,
            res_body = Json (JArr (map JObj (filter (search_hit q) products)))\<rparr>"
proof -
  from assms(2) have "\<not> (\<exists>p\<in>set products. search_throws q p)"
    by (auto simp: search_throws_def)
  with assms(1) show ?thesis
    by (simp add: search_products_cases)
qed

text \<open>
  Claim C5 asks that a search with a non-empty query returns the matching records for
  every store. A record created without a description makes the search throw instead:
  after the authorized, valid creation of a mouse with no description on the seeded
  store, the search for \<open>laptop\<close> is answered with the envelope of an unclassified
  failure, status 500, where the claim promises the one matching record, the laptop.
\<close>

theorem search_fails_without_description:
  "search_products ''2026-01-01T00:00:00.000Z'' (Some (QString ''laptop''))
     (snd (post_products \<lparr>API_KEY = Some ''secret''\<rparr> ''2026-01-01T00:00:00.000Z'' ''d''
        \<lparr>x_api_key = Some ''secret'',
         req_body = [(''name'', JStr ''Mouse''), (''price'', JNum (Finite 25)),
                     (''category'', JStr ''Electronics'')]\<rparr>
        (seed_products ''a'' ''b'' ''c''))) =
     error_envelope ''TypeError'' 500 ''2026-01-01T00:00:00.000Z'' \<and>
   filter (search_hit ''laptop'')
     (snd (post_products \<lparr>API_KEY = Some ''secret''\<rparr> ''2026-01-01T00:00:00.000Z'' ''d''
        \<lparr>x_api_key = Some ''secret'',
         req_body = [(''name'', JStr ''Mouse''), (''price'', JNum (Finite 25)),
                     (''category'', JStr ''Electronics'')]\<rparr>
        (seed_products ''a'' ''b'' ''c''))) =
     [[(''id'', JStr ''a''), (''name'', JStr ''Laptop''),
       (''description'', JStr ''High performance laptop''),
       (''price'', JNum (Finite (99999 / 100))), (''category'', JStr ''Electronics''),
       (''inStock'', JBool True)]]"
  by code_simp

text \<open>
  Claim C6, as amended. For a non-empty string query the search is answered with status
  500 exactly when the callback throws on some record: its name is not a string, or its
  name does not contain the query and its description is not a string. The answer is
  then the envelope of the \<open>TypeError\<close>; otherwise it is the 200 response with the matching
  records. So a record without a description makes the search fail for every query that
  its name does not contain, while for a query that its name contains the description is
  not evaluated. No non-empty query fails
  with 500 exactly when every record's name and description are strings.
\<close>

theorem search_type_error_iff:
  "(q \<noteq> [] \<longrightarrow>
      (res_status (search_products now (Some (QString q)) products) = 500 \<longleftrightarrow>
         (\<exists>p\<in>set products. search_throws q p)) \<and>
      (res_status (search_products now (Some (QString q)) products) = 500 \<longrightarrow>
         search_products now (Some (QString q)) products = error_handler now TypeError) \<and>
      (res_status (search_products now (Some (QString q)) products) \<noteq> 500 \<longrightarrow>
         search_products now (Some (QString q)) products =
           \<lparr>res_status = 200,
            res_body = Json (JArr (map JObj (filter (search_hit q) products)))\<rparr>)) \<and>
   (q \<noteq> [] \<and> r \<in> set products \<and> getprop r ''description'' = JUndefined \<and>
    is_string (getprop r ''name'') \<and> \<not> field_contains q (getprop r ''name'') \<longrightarrow>
      res_status (search_products now (Some (QString q)) products) = 500) \<and>
   ((\<forall>q'. q' \<noteq> [] \<longrightarrow> res_status (search_products now (Some (QString q')) products) \<noteq> 500) \<longleftrightarrow>
      (\<forall>p\<in>set products.
         is_string (getprop p ''name'') \<and> is_string (getprop p ''description'')))"
proof -
  have st: "res_status (search_products now (Some (QString q')) products) = 500 \<longleftrightarrow>
      (\<exists>p\<in>set products. search_throws q' p)" if "q' \<noteq> []" for q'
    using that by (simp add: search_products_cases error_envelope_def)
  have part1: "q \<noteq> [] \<longrightarrow>
      (res_status (search_products now (Some (QString q)) products) = 500 \<longleftrightarrow>
         (\<exists>p\<in>set products. search_throws q p)) \<and>
      (res_status (search_products now (Some (QString q)) products) = 500 \<longrightarrow>
         search_products now (Some (QString q)) products = error_handler now TypeError) \<and>
      (res_status (search_products now (Some (QString q)) products) \<noteq> 500 \<longrightarrow>
         search_products now (Some (QString q)) products =
           \<lparr>res_status = 200,
            res_body = Json (JArr (map JObj (filter (search_hit q) products)))\<rparr>)"
    by (simp add: search_products_cases error_envelope_def error_handler_TypeError)
  have part2: "q \<noteq> [] \<and> r \<in> set products \<and> getprop r ''description'' = JUndefined \<and>
    is_string (getprop r ''name'') \<and> \<not> field_contains q (getprop r ''name'') \<longrightarrow>
      res_status (search_products now (Some (QString q)) products) = 500"
  proof
    assume h: "q \<noteq> [] \<and> r \<in> set products \<and> getprop r ''description'' = JUndefined \<and>
      is_string (getprop r ''name'') \<and> \<not> field_contains q (getprop r ''name'')"
    then have "search_throws q r"
      by (simp add: search_throws_def is_string_def)
    with h st [of q] show "res_status (search_products now (Some (QString q)) products) = 500"
      by blast
  qed
  have part3: "(\<forall>q'. q' \<noteq> [] \<longrightarrow> res_status (search_products now (Some (QString q')) products) \<noteq> 500) \<longleftrightarrow>
      (\<forall>p\<in>set products.
         is_string (getprop p ''name'') \<and> is_string (getprop p ''description''))"
  proof
    assume never: "\<forall>q'. q' \<noteq> [] \<longrightarrow>
      res_status (search_products now (Some (QString q')) products) \<noteq> 500"
    show "\<forall>p\<in>set products.
        is_string (getprop p ''name'') \<and> is_string (getprop p ''description'')"
    proof
      fix p
      assume p: "p \<in> set products"
      show "is_string (getprop p ''name'') \<and> is_string (getprop p ''description'')"
      proof (rule ccontr)
        assume bad: "\<not> (is_string (getprop p ''name'') \<and> is_string (getprop p ''description''))"
        have "\<exists>q'. q' \<noteq> [] \<and> search_throws q' p"
        proof (cases "getprop p ''name''")
          case (JStr n)
          let ?q = "replicate (Suc (length n)) CHR ''x''"
          have "\<not> str_includes (toLowerCase n) (toLowerCase ?q)"
          proof
            assume "str_includes (toLowerCase n) (toLowerCase ?q)"
            from str_includes_length [OF this] show False
              by (simp add: toLowerCase_def)
          qed
          with JStr bad have "?q \<noteq> [] \<and> search_throws ?q p"
            by (simp add: search_throws_def is_string_def field_contains_def)
          then show ?thesis ..
        qed (auto simp: search_throws_def is_string_def intro: exI [of _ "''x''"])
        then obtain q' where ne: "q' \<noteq> []" and "search_throws q' p"
          by blast
        with p st [OF ne] never ne show False by blast
      qed
    qed
  next
    assume strs: "\<forall>p\<in>set products.
        is_string (getprop p ''name'') \<and> is_string (getprop p ''description'')"
    then have "\<not> (\<exists>p\<in>set products. search_throws q' p)" for q'
      by (auto simp: search_throws_def)
    with st show "\<forall>q'. q' \<noteq> [] \<longrightarrow>
      res_status (search_products now (Some (QString q')) products) \<noteq> 500"
      by blast
  qed
  from part1 part2 part3 show ?thesis by blast
qed

text \<open>
  The claim as stated fails: in the store that holds only the mouse created without a
  description, the search for \<open>mouse\<close> is answered with status 200 and the record.
\<close>

theorem search_skips_description_on_name_hit:
  "getprop (hd (snd (post_products \<lparr>API_KEY = Some ''secret''\<rparr> ''2026-01-01T00:00:00.000Z'' ''d''
        \<lparr>x_api_key = Some ''secret'',
         req_body = [(''name'', JStr ''Mouse''), (''price'', JNum (Finite 25)),
                     (''category'', JStr ''Electronics'')]\<rparr> []))) ''description'' = JUndefined \<and>
   search_products ''2026-01-01T00:00:00.000Z'' (Some (QString ''mouse''))
     (snd (post_products \<lparr>API_KEY = Some ''secret''\<rparr> ''2026-01-01T00:00:00.000Z'' ''d''
        \<lparr>x_api_key = Some ''secret'',
         req_body = [(''name'', JStr ''Mouse''), (''price'', JNum (Finite 25)),
                     (''category'', JStr ''Electronics'')]\<rparr> [])) =
   \<lparr>res_status = 200,
    res_body = Json (JArr [JObj
      [(''id'', JStr ''d''), (''name'', JStr ''Mouse''), (''description'', JUndefined),
       (''price'', JNum (Finite 25)), (''category'', JStr ''Electronics''),
       (''inStock'', JBool True)]])\<rparr>"
  by code_simp

text \<open>An instance: in the same store the search for \<open>lap\<close>, which the name \<open>Mouse\<close> does not
  contain, is answered with status 500.\<close>

theorem search_type_error_iff_witness:
  "res_status (search_products ''2026-01-01T00:00:00.000Z'' (Some (QString ''lap''))
     [[(''id'', JStr ''d''), (''name'', JStr ''Mouse''), (''description'', JUndefined),
       (''price'', JNum (Finite 25)), (''category'', JStr ''Electronics''),
       (''inStock'', JBool True)]]) = 500"
proof -
  let ?mouse = "[(''id'', JStr ''d''), (''name'', JStr ''Mouse''), (''description'', JUndefined),
       (''price'', JNum (Finite 25)), (''category'', JStr ''Electronics''),
       (''inStock'', JBool True)]"
  have h1: "''lap'' \<noteq> []" by simp
  have h2: "?mouse \<in> set [?mouse]" by simp
  have h3: "getprop ?mouse ''description'' = JUndefined" by (simp add: getprop_def)
  have h4: "is_string (getprop ?mouse ''name'')" by (simp add: getprop_def is_string_def)
  have h5: "\<not> field_contains ''lap'' (getprop ?mouse ''name'')" by code_simp
  from search_type_error_iff [of "''lap''" "''2026-01-01T00:00:00.000Z''" "[?mouse]" ?mouse]
    h1 h2 h3 h4 h5
  show ?thesis by blast
qed

section \<open>Delete\<close>

text \<open>
  What the delete route does for an authorized request: with no record of the id it
  answers with the 404 envelope and returns the store as it was; otherwise it answers 204
  with no body and removes the first record of the id, the others keeping their order.
  In a store whose ids are pairwise distinct a following \<open>getById\<close> of the id fails with
  the 404 envelope.
\<close>

lemma delete_product_absent:
  assumes auth: "x_api_key req = Some k" "k \<noteq> []" "API_KEY e = Some k"
    and absent: "\<forall>p\<in>set products. \<not> has_id i p"
  shows "delete_product e now i req products =
           (error_envelope ''Product not found'' 404 now, products)"
proof -
  from absent have "findIndex (has_id i) products = None"
    by (simp add: findIndex_None)
  then show ?thesis
    by (simp add: delete_product_def authenticate_ok [OF auth] error_handler_NotFoundError)
qed

lemma delete_product_present:
  assumes auth: "x_api_key req = Some k" "k \<noteq> []" "API_KEY e = Some k"
    and ix: "findIndex (has_id i) products = Some index"
  shows "delete_product e now i req products =
           (\<lparr>res_status = 204, res_body = NoBody\<rparr>,
            take index products @ drop (Suc index) products)"
  by (simp add: delete_product_def authenticate_ok [OF auth] ix)

lemma delete_then_get_distinct:
  assumes auth: "x_api_key req = Some k" "k \<noteq> []" "API_KEY e = Some k"
    and ix: "findIndex (has_id i) products = Some index"
    and ids: "distinct (ids_of products)"
  shows "get_product now i (snd (delete_product e now i req products)) =
           error_envelope ''Product not found'' 404 now"
proof -
  from findIndex_Some [OF ix]
  have len: "index < length products" and here: "has_id i (products ! index)"
    and before: "\<forall>j<index. \<not> has_id i (products ! j)"
    by auto
  have none: "\<not> has_id i p" if "p \<in> set (take index products @ drop (Suc index) products)" for p
  proof
    assume hp: "has_id i p"
    from that consider "p \<in> set (take index products)" | "p \<in> set (drop (Suc index) products)"
      by auto
    then show False
    proof cases
      case 1
      then obtain j where "j < index" "products ! j = p"
        using len by (auto simp: in_set_conv_nth)
      with before hp show False by auto
    next
      case 2
      then obtain d0 where "d0 < length (drop (Suc index) products)"
          "drop (Suc index) products ! d0 = p"
        by (auto simp: in_set_conv_nth)
      with len have d: "Suc index + d0 < length products" "products ! (Suc index + d0) = p"
        by simp_all
      from hp here d have "ids_of products ! (Suc index + d0) = ids_of products ! index"
        using len by (simp add: ids_of_def has_id_def)
      moreover from ids have "\<forall>m<length products. \<forall>n<length products.
          m \<noteq> n \<longrightarrow> ids_of products ! m \<noteq> ids_of products ! n"
        by (simp add: distinct_conv_nth ids_of_def)
      ultimately show False
        using d(1) len by auto
    qed
  qed
  then have "List.find (has_id i) (take index products @ drop (Suc index) products) = None"
    unfolding find_None_iff by blast
  then show ?thesis
    by (simp add: delete_product_present [OF auth ix] get_product_def error_handler_NotFoundError)
qed

text \<open>
  Claim C9 asks, for every store, that \<open>getById(id)\<close> fails after \<open>delete(id)\<close>. The
  update route can give a second record the same id (the defect of claim C2), and then it
  does not: on the seeded store, after the authorized update of record \<open>b\<close> with a valid
  body that carries \<open>id: a\<close>, the authorized delete of \<open>a\<close> is answered 204 and removes the
  laptop, and \<open>getById(a)\<close> is answered 200 with the former record \<open>b\<close>.
\<close>

theorem delete_then_get_finds_duplicate:
  "delete_product \<lparr>API_KEY = Some ''secret''\<rparr> ''2026-01-01T00:00:00.000Z'' ''a''
     \<lparr>x_api_key = Some ''secret'', req_body = []\<rparr>
     (snd (put_product \<lparr>API_KEY = Some ''secret''\<rparr> ''2026-01-01T00:00:00.000Z'' ''b''
        \<lparr>x_api_key = Some ''secret'',
         req_body = [(''id'', JStr ''a''), (''name'', JStr ''Smartphone''),
                     (''price'', JNum (Finite 650)), (''category'', JStr ''Electronics'')]\<rparr>
        (seed_products ''a'' ''b'' ''c''))) =
   (\<lparr>res_status = 204, res_body = NoBody\<rparr>,
    [[(''id'', JStr ''a''), (''name'', JStr ''Smartphone''),
      (''description'', JStr ''Latest model smartphone''),
      (''price'', JNum (Finite 650)), (''category'', JStr ''Electronics''),
      (''inStock'', JBool True)],
     [(''id'', JStr ''c''), (''name'', JStr ''Desk Chair''),
      (''description'', JStr ''Ergonomic office chair''),
      (''price'', JNum (Finite (19999 / 100))), (''category'', JStr ''Furniture''),
      (''inStock'', JBool False)]]) \<and>
   get_product ''2026-01-01T00:00:00.000Z'' ''a''
     [[(''id'', JStr ''a''), (''name'', JStr ''Smartphone''),
       (''description'', JStr ''Latest model smartphone''),
       (''price'', JNum (Finite 650)), (''category'', JStr ''Electronics''),
       (''inStock'', JBool True)],
      [(''id'', JStr ''c''), (''name'', JStr ''Desk Chair''),
       (''description'', JStr ''Ergonomic office chair''),
       (''price'', JNum (Finite (19999 / 100))), (''category'', JStr ''Furniture''),
       (''inStock'', JBool False)]] =
   \<lparr>res_status = 200,
    res_body = Json (JObj
      [(''id'', JStr ''a''), (''name'', JStr ''Smartphone''),
       (''description'', JStr ''Latest model smartphone''),
       (''price'', JNum (Finite 650)), (''category'', JStr ''Electronics''),
       (''inStock'', JBool True)])\<rparr>"
  by code_simp

section \<open>List\<close>

text \<open>On natural bounds the slice of JavaScript and the slice of the specification are
  the same part of the list.\<close>

lemma trunc_of_nat: "trunc (of_nat n) = int n"
  by (simp add: trunc_def)

lemma rel_index_of_nat: "rel_index len (Finite (of_nat n)) = min n len"
  by (simp add: trunc_of_nat)

lemma slice_of_nat:
  "slice xs (Finite (of_nat a)) (Finite (of_nat b)) = take (b - a) (drop a xs)"
  by (simp add: slice_def trunc_of_nat Let_def min_def)

lemma spec_slice_of_nat:
  "spec_slice (of_nat a) (of_nat b) xs = take (b - a) (drop a xs)"
proof -
  have "filter (\<lambda>i. a \<le> i \<and> i < b) [0..<n] = [a..<min b n]" for n
  proof (induction n)
    case 0
    then show ?case by simp
  next
    case (Suc n)
    consider "n < b" "a \<le> n" | "n < b" "n < a" | "b \<le> n"
      by linarith
    then show ?case
    proof cases
      case 1
      then have "min b n = n" "min b (Suc n) = Suc n" by simp_all
      with Suc 1 show ?thesis by simp
    next
      case 2
      then have "min b n = n" "min b (Suc n) = Suc n" by simp_all
      with Suc 2 show ?thesis by simp
    next
      case 3
      then have "min b n = b" "min b (Suc n) = b" by simp_all
      with Suc 3 show ?thesis by simp
    qed
  qed
  then have "spec_slice (of_nat a) (of_nat b) xs = map (nth xs) [a..<min b (length xs)]"
    by (simp add: spec_slice_def)
  also have "\<dots> = take (b - a) (drop a xs)"
  proof (rule nth_equalityI)
    show "length (map (nth xs) [a..<min b (length xs)]) = length (take (b - a) (drop a xs))"
      by (simp add: min_def) arith
  next
    fix i
    assume "i < length (map (nth xs) [a..<min b (length xs)])"
    then have "i < b - a" "a + i < length xs"
      by (simp_all add: min_def split: if_splits)
    then show "map (nth xs) [a..<min b (length xs)] ! i = take (b - a) (drop a xs) ! i"
      by (simp add: min_def)
  qed
  finally show ?thesis .
qed


lemma category_matches_cases:
  "category_matches (QString c) p =
     (if is_string (getprop p ''category'') then Inr (category_is c p) else Inl TypeError)"
  by (cases "getprop p ''category''")
    (simp_all add: category_matches_def is_string_def category_is_def)

lemma filterE_total:
  "\<forall>x\<in>set xs. f x = Inr (g x) \<Longrightarrow> filterE f xs = Inr (filter g xs)"
  by (induction xs) simp_all

text \<open>
  Claim C4, as amended. For a list request whose category is absent or a string, on a
  store in which every category is a string (needed only when the request filters), and
  whose page and limit are integers with \<open>page \<ge> 1\<close> and \<open>limit \<ge> 0\<close> (a parameter left out
  counts as its default, 1 and 10): the response has status 200, its total is the number
  of records selected (all records when the category is absent or empty, else the records
  of that category, compared case-insensitively), and its products are the slice
  \<open>[(page - 1) * limit, page * limit)\<close> of the selected records in store order.
\<close>

theorem get_products_page:
  assumes cat: "category q = map_option QString c"
    and cats: "c \<noteq> None \<longrightarrow> c \<noteq> Some [] \<longrightarrow>
                 (\<forall>p\<in>set products. is_string (getprop p ''category''))"
    and pg: "as_number (page_or_default q) = Finite (of_nat pg)" "1 \<le> pg"
    and lm: "as_number (limit_or_default q) = Finite (of_nat lm)"
  shows "get_products now q products =
           \<lparr>res_status = 200,
            res_body = list_body q (length (spec_matching c products))
              (spec_slice ((of_nat pg - 1) * of_nat lm) (of_nat pg * of_nat lm)
                 (spec_matching c products))\<rparr>"
proof -
  let ?m = "spec_matching c products"
  have filtered: "(case category q of
               None \<Rightarrow> Inr products
             | Some c' \<Rightarrow>
                 if qtruthy (Some c') then filterE (category_matches c') products
                 else Inr products) = Inr ?m"
  proof (cases c)
    case None
    with cat show ?thesis by (simp add: spec_matching_def)
  next
    case (Some s)
    show ?thesis
    proof (cases "s = []")
      case True
      with Some cat show ?thesis by (simp add: spec_matching_def)
    next
      case False
      with Some cats have "\<forall>p\<in>set products. category_matches (QString s) p = Inr (category_is s p)"
        by (simp add: category_matches_cases)
      from filterE_total [OF this] Some False cat show ?thesis
        by (simp add: spec_matching_def)
    qed
  qed
  from pg(2) have start: "(of_nat pg - 1) * of_nat lm = (of_nat ((pg - 1) * lm) :: rat)"
    by (simp add: of_nat_diff)
  have stop: "of_nat pg * of_nat lm = (of_nat (pg * lm) :: rat)"
    by simp
  have "slice ?m (Finite ((of_nat pg - 1) * of_nat lm)) (Finite (of_nat pg * of_nat lm)) =
      spec_slice ((of_nat pg - 1) * of_nat lm) (of_nat pg * of_nat lm) ?m"
    unfolding start stop by (simp only: slice_of_nat spec_slice_of_nat)
  then show ?thesis
    by (simp add: get_products_def filtered pg(1) lm list_body_def Let_def)
qed

text \<open>
  The claim as stated fails for a negative limit, which JavaScript's \<open>slice\<close> counts from
  the end of the array: on the seeded store with \<open>category = Electronics\<close>, \<open>page = 1\<close> and
  \<open>limit = -1\<close> the response holds the laptop, while the slice \<open>[0, -1)\<close> of the two
  selected records is empty.
\<close>

theorem get_products_negative_limit:
  "get_products ''2026-01-01T00:00:00.000Z''
     \<lparr>category = Some (QString ''Electronics''),
      page = Some \<lparr>as_number = Finite 1, as_parseInt = Finite 1\<rparr>,
      limit = Some \<lparr>as_number = Finite (- 1), as_parseInt = Finite (- 1)\<rparr>\<rparr>
     (seed_products ''a'' ''b'' ''c'') =
   \<lparr>res_status = 200,
    res_body = Json (JObj
      [(''total'', JNum (Finite 2)), (''page'', JNum (Finite 1)), (''limit'', JNum (Finite (- 1))),
       (''products'', JArr [JObj
          [(''id'', JStr ''a''), (''name'', JStr ''Laptop''),
           (''description'', JStr ''High performance laptop''),
           (''price'', JNum (Finite (99999 / 100))), (''category'', JStr ''Electronics''),
           (''inStock'', JBool True)]])])\<rparr> \<and>
   spec_slice ((1 - 1) * (- 1)) (1 * (- 1))
     (spec_matching (Some ''Electronics'') (seed_products ''a'' ''b'' ''c'')) = []"
  by code_simp

text \<open>
  An instance, the example of the specification: on a store of exactly two Electronics
  records, \<open>category = Electronics\<close>, \<open>page = 1\<close> and \<open>limit = 1\<close> give the total 2 and the
  first of the two records.
\<close>

theorem get_products_page_witness:
  "get_products ''2026-01-01T00:00:00.000Z''
     \<lparr>category = Some (QString ''Electronics''),
      page = Some \<lparr>as_number = Finite 1, as_parseInt = Finite 1\<rparr>,
      limit = Some \<lparr>as_number = Finite 1, as_parseInt = Finite 1\<rparr>\<rparr>
     (take 2 (seed_products ''a'' ''b'' ''c'')) =
   \<lparr>res_status = 200,
    res_body = Json (JObj
      [(''total'', JNum (Finite 2)), (''page'', JNum (Finite 1)), (''limit'', JNum (Finite 1)),
       (''products'', JArr [JObj
          [(''id'', JStr ''a''), (''name'', JStr ''Laptop''),
           (''description'', JStr ''High performance laptop''),
           (''price'', JNum (Finite (99999 / 100))), (''category'', JStr ''Electronics''),
           (''inStock'', JBool True)]])])\<rparr>"
proof -
  let ?q = "\<lparr>category = Some (QString ''Electronics''),
      page = Some \<lparr>as_number = Finite 1, as_parseInt = Finite 1\<rparr>,
      limit = Some \<lparr>as_number = Finite 1, as_parseInt = Finite 1\<rparr>\<rparr>"
  let ?store = "take 2 (seed_products ''a'' ''b'' ''c'')"
  have h1: "category ?q = map_option QString (Some ''Electronics'')" by simp
  have h2: "Some ''Electronics'' \<noteq> None \<longrightarrow> Some ''Electronics'' \<noteq> Some [] \<longrightarrow>
      (\<forall>p\<in>set ?store. is_string (getprop p ''category''))"
    by (simp add: seed_products_def getprop_def is_string_def)
  have h3: "as_number (page_or_default ?q) = Finite (of_nat 1)"
    by (simp add: page_or_default_def)
  have h4: "(1::nat) \<le> 1" by simp
  have h5: "as_number (limit_or_default ?q) = Finite (of_nat 1)"
    by (simp add: limit_or_default_def)
  have m: "spec_matching (Some ''Electronics'') ?store = ?store"
    by code_simp
  have sl: "spec_slice ((of_nat 1 - 1) * of_nat 1) (of_nat 1 * of_nat 1) ?store =
      [hd (seed_products ''a'' ''b'' ''c'')]"
    by (simp add: spec_slice_def seed_products_def)
  from get_products_page [OF h1 h2 h3 h4 h5, of "''2026-01-01T00:00:00.000Z''"]
  show ?thesis
    unfolding m sl
    by (simp add: list_body_def page_or_default_def limit_or_default_def seed_products_def)
qed

end
